theory Spec2Isabelle
  imports Main
begin

section \<open>Values exchanged with the collaborators\<close>

text \<open>
  The cluster client, the standard library and the config validator are outside the two
  files verified here. Their answers are inputs of the model; only the shape the code
  inspects is represented.

  A Go \<open>error\<close> is an interface value. The code looks at its dynamic type only
  (\<open>reflect.TypeOf(err) == reflect.TypeOf(&kerrs.StatusError{})\<close>), so the model keeps
  one constructor per dynamic type: the API status error of the cluster client with its
  reason, a plain \<open>errors.New\<close> value, and the \<open>types.DiagnosticError\<close> struct that
  \<open>CanRun\<close> builds (ID, message, cause). The message of the latter is kept as the text
  or format the code passes; the value formatted into it is the cause.
\<close>

datatype status_reason = NotFound | Forbidden | Unauthorized | ServerTimeout | InternalError

datatype error =
    StatusError status_reason string
  | ErrorString string
  | DiagnosticError string string "error option"

datatype panic = NilPointerDereference | IndexOutOfRange

datatype podPhase = PodPending | PodRunning | PodSucceeded | PodFailed | PodUnknown

record pod =
  podNamespace :: string
  podName :: string
  phase :: podPhase
  containers :: "string list"

record deploymentConfig =
  selector :: "(string \<times> string) list"

record authorizationAttributes =
  Namespace :: string
  Verb :: string
  Resource :: string
  ResourceName :: string

text \<open>
  Instants are nanoseconds since the epoch, as unbounded integers. A line of a log
  stream comes with the reading of the wall clock that \<open>time.Since\<close> obtains if the
  line is examined: the clock is an input like the line itself.
\<close>

type_synonym time = int

type_synonym logLine = "string \<times> time"

datatype streamEnd = EndOfStream | ReadError error

type_synonym logStream = "logLine list \<times> streamEnd"

record osClient =
  getDeploymentConfig :: "string \<Rightarrow> string \<Rightarrow> error + deploymentConfig"
  adminCan :: "authorizationAttributes \<Rightarrow> bool \<times> error option"

record kubeClient =
  listPods :: "string \<Rightarrow> (string \<times> string) list \<Rightarrow> error + pod list"
  streamLog :: "string \<Rightarrow> string \<Rightarrow> string \<Rightarrow> error + logStream"

text \<open>\<open>ClusterRouter\<close>: both client handles are pointers and may be nil.\<close>

record clusterRouter =
  KubeClient :: "kubeClient option"
  OsClient :: "osClient option"

record nodeConfigCheck =
  NodeConfigFile :: string

section \<open>The result sink\<close>

text \<open>
  Modelled from the spec: \<open>types.DiagnosticResult\<close>, \<open>types.NewDiagnosticResult\<close> and the
  methods \<open>Debugf\<close>, \<open>Infof\<close>, \<open>Warnf\<close>, \<open>Errorf\<close>, \<open>Warnt\<close>, \<open>Errort\<close> are used by both
  files but defined elsewhere. Following the spec, the sink is an append-only, ordered
  sequence of findings under a namespace; a finding has a severity level, a message code,
  an optional wrapped error and a message that is either a positional template with its
  arguments or a named-parameter template with its parameters. Messages are kept
  structured (template and arguments), not rendered.
\<close>

datatype level = DebugLevel | InfoLevel | WarnLevel | ErrorLevel

datatype arg = Str string | Err error | Sprintf string "arg list"

datatype message =
    Formatted string "arg list"
  | Templated string "(string \<times> arg) list"

record finding =
  level :: level
  code :: string
  cause :: "error option"
  message :: message

record diagnosticResult =
  origin :: string
  logs :: "finding list"

definition NewDiagnosticResult :: "string \<Rightarrow> diagnosticResult" where
  "NewDiagnosticResult name = \<lparr>origin = name, logs = []\<rparr>"

definition emit :: "level \<Rightarrow> string \<Rightarrow> error option \<Rightarrow> message \<Rightarrow> diagnosticResult \<Rightarrow> diagnosticResult" where
  "emit l i e m r = r\<lparr>logs := logs r @ [\<lparr>level = l, code = i, cause = e, message = m\<rparr>]\<rparr>"

definition Debugf :: "string \<Rightarrow> string \<Rightarrow> arg list \<Rightarrow> diagnosticResult \<Rightarrow> diagnosticResult" where
  "Debugf i f a = emit DebugLevel i None (Formatted f a)"

definition Infof :: "string \<Rightarrow> string \<Rightarrow> arg list \<Rightarrow> diagnosticResult \<Rightarrow> diagnosticResult" where
  "Infof i f a = emit InfoLevel i None (Formatted f a)"

definition Warnf :: "string \<Rightarrow> error option \<Rightarrow> string \<Rightarrow> arg list \<Rightarrow> diagnosticResult \<Rightarrow> diagnosticResult" where
  "Warnf i e f a = emit WarnLevel i e (Formatted f a)"

definition Errorf :: "string \<Rightarrow> error option \<Rightarrow> string \<Rightarrow> arg list \<Rightarrow> diagnosticResult \<Rightarrow> diagnosticResult" where
  "Errorf i e f a = emit ErrorLevel i e (Formatted f a)"

definition Warnt :: "string \<Rightarrow> error option \<Rightarrow> string \<Rightarrow> (string \<times> arg) list \<Rightarrow> diagnosticResult \<Rightarrow> diagnosticResult" where
  "Warnt i e t h = emit WarnLevel i e (Templated t h)"

definition Errort :: "string \<Rightarrow> error option \<Rightarrow> string \<Rightarrow> (string \<times> arg) list \<Rightarrow> diagnosticResult \<Rightarrow> diagnosticResult" where
  "Errort i e t h = emit ErrorLevel i e (Templated t h)"

text \<open>The findings of one level, as the reporting layer counts them.\<close>

definition atLevel :: "level \<Rightarrow> diagnosticResult \<Rightarrow> finding list" where
  "atLevel l r = filter (\<lambda>f. level f = l) (logs r)"

section \<open>Constants of router.go\<close>

definition ClusterRouterName :: string where
  "ClusterRouterName = ''ClusterRouter''"

definition routerName :: string where
  "routerName = ''router''"

definition NamespaceDefault :: string where
  "NamespaceDefault = ''default''"

definition clientAccessError :: string where
  "clientAccessError =
    ''Client error while retrieving router records. Client retrieved records\<newline>'' @
    ''during discovery, so this is likely to be a transient error. Try running\<newline>'' @
    ''diagnostics again. If this message persists, there may be a permissions\<newline>'' @
    ''problem with getting router records. The error was:\<newline>\<newline>(%T) %[1]v''"

definition clGetRtNone :: string where
  "clGetRtNone =
    ''\<newline>There is no \"%s\" DeploymentConfig. The router may have been named\<newline>'' @
    ''something different, in which case this warning may be ignored.\<newline>\<newline>'' @
    ''A router is not strictly required; however it is needed for accessing\<newline>'' @
    ''pods from external networks and its absence likely indicates an incomplete\<newline>'' @
    ''installation of the cluster.\<newline>\<newline>'' @
    ''Use the 'oadm router' command to create a router.\<newline>''"

definition clGetRtFailed :: string where
  "clGetRtFailed =
    ''\<newline>Client error while retrieving \"%s\" DC. Client retrieved records\<newline>'' @
    ''before, so this is likely to be a transient error. Try running\<newline>'' @
    ''diagnostics again. If this message persists, there may be a permissions\<newline>'' @
    ''problem with getting records. The error was:\<newline>\<newline>(%[2]T) %[2]v''"

definition clRtNoPods :: string where
  "clRtNoPods =
    ''\<newline>The \"%s\" DeploymentConfig exists but has no running pods, so it\<newline>'' @
    ''is not available. Apps will not be externally accessible via the router.''"

definition clRtPodLog :: string where
  "clRtPodLog =
    ''\<newline>Failed to read the logs for the \"{{.podName}}\" pod belonging to\<newline>'' @
    ''the router deployment. This is not a problem by itself but prevents\<newline>'' @
    ''diagnostics from looking for errors in those logs. The error encountered\<newline>'' @
    ''was:\<newline>{{.error}}''"

definition clRtPodConn :: string where
  "clRtPodConn =
    ''\<newline>Recent pod logs for the \"{{.podName}}\" pod belonging to\<newline>'' @
    ''the router deployment indicated a problem requesting route information\<newline>'' @
    ''from the master. This prevents the router from functioning, so\<newline>'' @
    ''applications will not be externally accessible via the router.\<newline>\<newline>'' @
    ''There are many reasons for this request to fail, including invalid\<newline>'' @
    ''credentials, DNS failures, master outages, and so on. Examine the\<newline>'' @
    ''following error message from the router pod logs to determine the\<newline>'' @
    ''cause of the problem:\<newline>\<newline>{{.reason}}\<newline>Time: {{.timestamp}}''"

definition referenceTimestampLayout :: string where
  "referenceTimestampLayout = ''2006-01-02T15:04:05.000000000Z''"

section \<open>The failure pattern\<close>

text \<open>
  The pattern of \<open>checkRouterLogs\<close> is
  \<^verbatim>\<open>^(\S+).*Failed to list \*api.Route: (.*)\<close>
  under Go's leftmost-first matching, where every repetition is greedy and gives back
  only when the rest cannot match. A string is a sequence of bytes; the matcher reads
  runes. \<open>\s\<close> is one of tab, newline, form feed, carriage return and space, so \<open>\S\<close> is any
  other rune; \<open>.\<close> is any rune but newline; the dot in \<open>api.Route\<close> is not escaped and
  stands for one rune, which can be several bytes. \<open>runeLen\<close> is the width that
  \<open>utf8.DecodeRuneInString\<close> reports: the length of a well-formed encoding, and one byte for
  anything else. The repetitions step byte by byte: what follows each of them starts
  with an ASCII byte or is the end of the match, and an ASCII byte is never inside an
  encoded rune.
\<close>

definition isSpace :: "char \<Rightarrow> bool" where
  "isSpace c = (c = CHR 0x09 \<or> c = CHR 0x0A \<or> c = CHR 0x0C \<or> c = CHR 0x0D \<or> c = CHR '' '')"

definition follows :: "nat \<Rightarrow> nat \<Rightarrow> nat \<Rightarrow> string \<Rightarrow> bool" where
  "follows lo hi n t =
     (case t of
        [] \<Rightarrow> False
      | b # u \<Rightarrow> lo \<le> (of_char b :: nat) \<and> (of_char b :: nat) \<le> hi \<and> n - 1 \<le> length u \<and>
                 list_all (\<lambda>c. 0x80 \<le> (of_char c :: nat) \<and> (of_char c :: nat) \<le> 0xBF) (take (n - 1) u))"

definition runeLen :: "string \<Rightarrow> nat" where
  "runeLen s =
     (case s of
        [] \<Rightarrow> 0
      | b # t \<Rightarrow>
          (let x = (of_char b :: nat) in
           if x < 0x80 then 1
           else if 0xC2 \<le> x \<and> x \<le> 0xDF then (if follows 0x80 0xBF 1 t then 2 else 1)
           else if x = 0xE0 then (if follows 0xA0 0xBF 2 t then 3 else 1)
           else if x = 0xED then (if follows 0x80 0x9F 2 t then 3 else 1)
           else if 0xE1 \<le> x \<and> x \<le> 0xEF then (if follows 0x80 0xBF 2 t then 3 else 1)
           else if x = 0xF0 then (if follows 0x90 0xBF 3 t then 4 else 1)
           else if 0xF1 \<le> x \<and> x \<le> 0xF3 then (if follows 0x80 0xBF 3 t then 4 else 1)
           else if x = 0xF4 then (if follows 0x80 0x8F 3 t then 4 else 1)
           else 1))"

definition stripPrefix :: "string \<Rightarrow> string \<Rightarrow> string option" where
  "stripPrefix p s = (if take (length p) s = p then Some (drop (length p) s) else None)"

text \<open>\<open>Failed to list \*api.Route: \<close> at the head of the string; the result is what follows it.\<close>

definition phrase :: "string \<Rightarrow> string option" where
  "phrase s =
     (case stripPrefix ''Failed to list *api'' s of
        None \<Rightarrow> None
      | Some t \<Rightarrow>
          (case t of
             [] \<Rightarrow> None
           | c # _ \<Rightarrow> if c = CHR 0x0A then None else stripPrefix ''Route: '' (drop (runeLen t) t)))"

text \<open>
  \<open>.*Failed to list \*api.Route: (.*)\<close>: the greedy \<open>.*\<close> first tries to take one more
  character, and only then the phrase where it stands. The result is the second group.
\<close>

fun afterStamp :: "string \<Rightarrow> string option" where
  "afterStamp [] = phrase []"
| "afterStamp (c # s) =
     (case (if c = CHR 0x0A then None else afterStamp s) of
        Some g \<Rightarrow> Some g
      | None \<Rightarrow> (case phrase (c # s) of
                   None \<Rightarrow> None
                 | Some t \<Rightarrow> Some (takeWhile (\<lambda>x. x \<noteq> CHR 0x0A) t)))"

text \<open>
  \<open>FindStringSubmatch\<close> returns nil when the line does not match, and otherwise the
  slice of the match and the two groups; the code reads \<open>matches[1]\<close> and \<open>matches[2]\<close>
  only. The greedy \<open>\S+\<close> first tries to take one more character.
\<close>

fun FindStringSubmatch :: "string \<Rightarrow> (string \<times> string) option" where
  "FindStringSubmatch [] = None"
| "FindStringSubmatch (c # s) =
     (if isSpace c then None
      else (case FindStringSubmatch s of
              Some (g1, g2) \<Rightarrow> Some (c # g1, g2)
            | None \<Rightarrow> (case afterStamp s of
                         None \<Rightarrow> None
                       | Some g2 \<Rightarrow> Some ([c], g2))))"

section \<open>Elapsed time\<close>

text \<open>
  \<open>time.Since(stamp)\<close> is \<open>time.Now().Sub(stamp)\<close>: the difference in nanoseconds as a
  64-bit \<open>Duration\<close>, saturating at both ends. \<open>Seconds()\<close> converts to a float64 as
  whole seconds plus the fraction; 30 is a float and the sum of at most 29 and a
  fraction below one rounds to a float below 30, so \<open>Seconds() < 30.0\<close> holds exactly
  when the duration is below 30 000 000 000 nanoseconds. A stamp in the future gives a
  negative duration, which is below the threshold.
\<close>

definition minDuration :: int where
  "minDuration = - (2 ^ 63)"

definition maxDuration :: int where
  "maxDuration = 2 ^ 63 - 1"

definition Since :: "time \<Rightarrow> time \<Rightarrow> int" where
  "Since now t =
     (let d = now - t
      in if d < minDuration then minDuration else if maxDuration < d then maxDuration else d)"

definition secondsBelow30 :: "int \<Rightarrow> bool" where
  "secondsBelow30 d = (d < 30 * 1000000000)"

section \<open>The cluster router check\<close>

definition ClusterRouter_Name :: "clusterRouter \<Rightarrow> string" where
  "ClusterRouter_Name d = ''ClusterRouterName''"

definition ClusterRouter_Description :: "clusterRouter \<Rightarrow> string" where
  "ClusterRouter_Description d = ''Check there is a working router''"

text \<open>
  \<open>CanRun\<close>. The helper \<open>adminCan\<close> is defined in another file; its answer for the
  attributes the code passes is an input, the field \<open>adminCan\<close> of the client. The
  \<open>DiagnosticError\<close> built here is returned as a struct value, so the returned error is
  never nil on these two paths, also when its cause is.
\<close>

definition ClusterRouter_CanRun :: "clusterRouter \<Rightarrow> bool \<times> error option" where
  "ClusterRouter_CanRun d =
     (case KubeClient d of
        None \<Rightarrow> (False, Some (ErrorString ''must have kube and os client''))
      | Some k \<Rightarrow>
          (case OsClient d of
             None \<Rightarrow> (False, Some (ErrorString ''must have kube and os client''))
           | Some c \<Rightarrow>
               (case adminCan c
                       \<lparr>Namespace = NamespaceDefault, Verb = ''get'', Resource = ''dc'',
                        ResourceName = routerName\<rparr> of
                  (can, Some err) \<Rightarrow>
                    (False, Some (DiagnosticError ''clGetRouterFailed'' clientAccessError (Some err)))
                | (can, None) \<Rightarrow>
                    if \<not> can
                    then (False, Some (DiagnosticError ''clGetRouterFailed''
                                         ''Client does not have cluster-admin access'' None))
                    else (True, None))))"

text \<open>
  \<open>getRouterDC\<close>. Calling through a nil client handle dereferences it inside the
  client library.
\<close>

definition isStatusError :: "error \<Rightarrow> bool" where
  "isStatusError err = (case err of StatusError _ _ \<Rightarrow> True | _ \<Rightarrow> False)"

definition getRouterDC :: "clusterRouter \<Rightarrow> diagnosticResult \<Rightarrow> panic + (deploymentConfig option \<times> diagnosticResult)" where
  "getRouterDC d r =
     (case OsClient d of
        None \<Rightarrow> Inl NilPointerDereference
      | Some c \<Rightarrow>
          (case getDeploymentConfig c NamespaceDefault routerName of
             Inl err \<Rightarrow>
               if isStatusError err
               then Inr (None, Warnf ''DClu2001'' (Some err) clGetRtNone [Str routerName] r)
               else Inr (None, Errorf ''DClu2002'' (Some err) clGetRtFailed [Str routerName, Err err] r)
           | Inr dc \<Rightarrow> Inr (Some dc, Debugf ''DClu2003'' ''Found default router DC'' [] r)))"

text \<open>The loop of \<open>getRouterPods\<close> over \<open>pods.Items\<close>, with the slice \<open>running\<close> it builds.\<close>

fun runningPods :: "pod list \<Rightarrow> pod list \<Rightarrow> diagnosticResult \<Rightarrow> pod list \<times> diagnosticResult" where
  "runningPods [] running r = (running, r)"
| "runningPods (p # items) running r =
     (if phase p \<noteq> PodRunning
      then runningPods items running
             (Debugf ''DClu2005'' ''router pod with name %s is not running'' [Str (podName p)] r)
      else runningPods items (running @ [p])
             (Debugf ''DClu2006'' ''Found running router pod with name %s'' [Str (podName p)] r))"

definition getRouterPods :: "clusterRouter \<Rightarrow> deploymentConfig \<Rightarrow> diagnosticResult \<Rightarrow> panic + (pod list option \<times> diagnosticResult)" where
  "getRouterPods d dc r =
     (case KubeClient d of
        None \<Rightarrow> Inl NilPointerDereference
      | Some k \<Rightarrow>
          (case listPods k NamespaceDefault (selector dc) of
             Inl err \<Rightarrow>
               Inr (None, Errorf ''DClu2004'' (Some err)
                  ''Finding pods for '%s' DeploymentConfig failed. This should never happen. Error: (%[2]T) %[2]v''
                  [Str routerName, Err err] r)
           | Inr items \<Rightarrow>
               (case runningPods items [] r of
                  (running, r') \<Rightarrow>
                    if length running = 0
                    then Inr (None, Errorf ''DClu2007'' None clRtNoPods [Str routerName] r')
                    else Inr (Some running, r'))))"

text \<open>
  What the check does to log streams is recorded in order: a stream is opened for a pod,
  a line is handed to the loop by \<open>Scan\<close>/\<open>Text\<close>, the stream is closed.
\<close>

datatype streamOp = Opened string | Delivered string string | Closed string

record lineScanner =
  owner :: string
  pending :: "logLine list"
  ending :: streamEnd

definition Close :: "lineScanner \<Rightarrow> streamOp list \<Rightarrow> streamOp list" where
  "Close sc w = w @ [Closed (owner sc)]"

text \<open>
  \<open>getPodLogScanner\<close>. The request is built from \<open>d.KubeClient.RESTClient\<close> first and
  from \<open>pod.Spec.Containers[0]\<close> after it; the index is not guarded.
\<close>

definition getPodLogScanner :: "clusterRouter \<Rightarrow> pod \<Rightarrow> streamOp list \<Rightarrow> panic + ((error + lineScanner) \<times> streamOp list)" where
  "getPodLogScanner d p w =
     (case KubeClient d of
        None \<Rightarrow> Inl NilPointerDereference
      | Some k \<Rightarrow>
          (case containers p of
             [] \<Rightarrow> Inl IndexOutOfRange
           | c # _ \<Rightarrow>
               (case streamLog k (podNamespace p) (podName p) c of
                  Inl err \<Rightarrow> Inr (Inl err, w)
                | Inr (ls, e) \<Rightarrow>
                    Inr (Inr \<lparr>owner = podName p, pending = ls, ending = e\<rparr>,
                         w @ [Opened (podName p)]))))"

text \<open>
  The loop \<open>for scanner.Scan() { ... }\<close> of \<open>checkRouterLogs\<close>. \<open>Scan\<close> is false at the end
  of the stream and at a read error alike, so the loop ends when no line is pending.
  \<open>time.Parse\<close> belongs to the standard library and is the parameter \<open>parse\<close>; the clock
  is read only when the stamp parsed.
\<close>

fun scanLines :: "(string \<Rightarrow> string \<Rightarrow> error + time) \<Rightarrow> pod \<Rightarrow> logLine list \<Rightarrow>
    diagnosticResult \<times> streamOp list \<Rightarrow> diagnosticResult \<times> streamOp list" where
  "scanLines parse p [] (r, w) = (r, w)"
| "scanLines parse p ((text, now) # rest) (r, w) =
     (case FindStringSubmatch text of
        None \<Rightarrow> scanLines parse p rest (r, w @ [Delivered (podName p) text])
      | Some (m1, m2) \<Rightarrow>
          (case parse referenceTimestampLayout m1 of
             Inl err \<Rightarrow> scanLines parse p rest (r, w @ [Delivered (podName p) text])
           | Inr stamp \<Rightarrow>
               if secondsBelow30 (Since now stamp)
               then (Errort ''DClu2009'' None clRtPodConn
                       [(''reason'', Str m2), (''timestamp'', Str m1), (''podName'', Str (podName p))] r,
                     w @ [Delivered (podName p) text])
               else scanLines parse p rest (r, w @ [Delivered (podName p) text])))"

definition checkRouterLogs :: "(string \<Rightarrow> string \<Rightarrow> error + time) \<Rightarrow> clusterRouter \<Rightarrow> pod \<Rightarrow>
    diagnosticResult \<times> streamOp list \<Rightarrow> panic + (diagnosticResult \<times> streamOp list)" where
  "checkRouterLogs parse d p s =
     (case s of (r, w) \<Rightarrow>
        (case getPodLogScanner d p w of
           Inl x \<Rightarrow> Inl x
         | Inr (Inl err, w1) \<Rightarrow>
             Inr (Warnt ''DClu2008'' (Some err) clRtPodLog
                    [(''error'', Sprintf ''(%T) %[1]v'' [Err err]), (''podName'', Str (podName p))] r,
                  w1)
         | Inr (Inr scanner, w1) \<Rightarrow>
             (case scanLines parse p (pending scanner) (r, w1) of
                (r2, w2) \<Rightarrow> Inr (r2, Close scanner w2))))"

text \<open>The loop of \<open>Check\<close> over \<open>podList.Items\<close>; a panic ends it.\<close>

fun checkPods :: "(string \<Rightarrow> string \<Rightarrow> error + time) \<Rightarrow> clusterRouter \<Rightarrow> pod list \<Rightarrow>
    diagnosticResult \<times> streamOp list \<Rightarrow> panic + (diagnosticResult \<times> streamOp list)" where
  "checkPods parse d [] s = Inr s"
| "checkPods parse d (p # items) s =
     (case checkRouterLogs parse d p s of
        Inl x \<Rightarrow> Inl x
      | Inr s' \<Rightarrow> checkPods parse d items s')"

text \<open>\<open>Check\<close> returns the sink; the model returns the stream operations with it.\<close>

definition ClusterRouter_Check :: "(string \<Rightarrow> string \<Rightarrow> error + time) \<Rightarrow> clusterRouter \<Rightarrow>
    panic + (diagnosticResult \<times> streamOp list)" where
  "ClusterRouter_Check parse d =
     (case getRouterDC d (NewDiagnosticResult ClusterRouterName) of
        Inl x \<Rightarrow> Inl x
      | Inr (None, r) \<Rightarrow> Inr (r, [])
      | Inr (Some dc, r) \<Rightarrow>
          (case getRouterPods d dc r of
             Inl x \<Rightarrow> Inl x
           | Inr (None, r') \<Rightarrow> Inr (r', [])
           | Inr (Some podList, r') \<Rightarrow> checkPods parse d podList (r', [])))"

section \<open>The node config check\<close>

text \<open>
  \<open>ReadAndResolveNodeConfig\<close> and \<open>ValidateNodeConfig\<close> belong to other packages and are
  the parameters \<open>readConfig\<close> and \<open>validate\<close>.
\<close>

definition NodeConfigCheckName :: string where
  "NodeConfigCheckName = ''NodeConfigCheck''"

definition NodeConfigCheck_Name :: "nodeConfigCheck \<Rightarrow> string" where
  "NodeConfigCheck_Name d = NodeConfigCheckName"

definition NodeConfigCheck_Description :: "nodeConfigCheck \<Rightarrow> string" where
  "NodeConfigCheck_Description d = ''Check the node config file''"

definition NodeConfigCheck_CanRun :: "nodeConfigCheck \<Rightarrow> bool \<times> error option" where
  "NodeConfigCheck_CanRun d =
     (if length (NodeConfigFile d) = 0
      then (False, Some (ErrorString ''must have node config file''))
      else (True, None))"

fun reportValidation :: "string \<Rightarrow> error list \<Rightarrow> diagnosticResult \<Rightarrow> diagnosticResult" where
  "reportValidation file [] r = r"
| "reportValidation file (err # errs) r =
     reportValidation file errs
       (Errorf ''DH1004'' (Some err) ''Validation of node config file '%s' failed:\<newline>(%T) %[2]v''
          [Str file, Err err] r)"

definition NodeConfigCheck_Check :: "(string \<Rightarrow> error + 'c) \<Rightarrow> ('c \<Rightarrow> error list) \<Rightarrow> nodeConfigCheck \<Rightarrow> diagnosticResult" where
  "NodeConfigCheck_Check readConfig validate d =
     (let r = Debugf ''DH1001'' (''Looking for node config file at '%s'' @ [CHR 0x27]) [Str (NodeConfigFile d)]
                (NewDiagnosticResult NodeConfigCheckName)
      in case readConfig (NodeConfigFile d) of
           Inl err \<Rightarrow>
             Errorf ''DH1002'' (Some err) ''Could not read node config file '%s':\<newline>(%T) %[2]v''
               [Str (NodeConfigFile d), Err err] r
         | Inr nodeConfig \<Rightarrow>
             reportValidation (NodeConfigFile d) (validate nodeConfig)
               (Infof ''DH1003'' ''Found a node config file: %[1]s'' [Str (NodeConfigFile d)] r))"

section \<open>Notions used to state the properties\<close>

text \<open>
  The test that the loop of \<open>checkRouterLogs\<close> applies to a line: the pattern matches,
  the first group parses as a stamp, and the stamp is recent.
\<close>

definition qualifies :: "(string \<Rightarrow> string \<Rightarrow> error + time) \<Rightarrow> logLine \<Rightarrow> bool" where
  "qualifies parse l =
     (case FindStringSubmatch (fst l) of
        None \<Rightarrow> False
      | Some (m1, m2) \<Rightarrow>
          (case parse referenceTimestampLayout m1 of
             Inl err \<Rightarrow> False
           | Inr stamp \<Rightarrow> secondsBelow30 (Since (snd l) stamp)))"

text \<open>The lines of a stream up to and including the first one that qualifies.\<close>

fun scanned :: "(string \<Rightarrow> string \<Rightarrow> error + time) \<Rightarrow> logLine list \<Rightarrow> logLine list" where
  "scanned parse [] = []"
| "scanned parse (l # ls) = (if qualifies parse l then [l] else l # scanned parse ls)"

definition delivered :: "pod \<Rightarrow> logLine list \<Rightarrow> streamOp list" where
  "delivered p ls = map (\<lambda>l. Delivered (podName p) (fst l)) ls"

text \<open>How many streams a sequence of operations opens, and how many it closes.\<close>

definition acquired :: "streamOp list \<Rightarrow> nat" where
  "acquired w = length (filter (\<lambda>x. case x of Opened _ \<Rightarrow> True | _ \<Rightarrow> False) w)"

definition released :: "streamOp list \<Rightarrow> nat" where
  "released w = length (filter (\<lambda>x. case x of Closed _ \<Rightarrow> True | _ \<Rightarrow> False) w)"

definition isRunning :: "pod \<Rightarrow> bool" where
  "isRunning p = (phase p = PodRunning)"

text \<open>The findings of \<open>getRouterDC\<close> and \<open>getRouterPods\<close>, by name.\<close>

definition foundRouterDC :: finding where
  "foundRouterDC = \<lparr>level = DebugLevel, code = ''DClu2003'', cause = None,
                     message = Formatted ''Found default router DC'' []\<rparr>"

definition podFinding :: "pod \<Rightarrow> finding" where
  "podFinding p =
     (if phase p \<noteq> PodRunning
      then \<lparr>level = DebugLevel, code = ''DClu2005'', cause = None,
            message = Formatted ''router pod with name %s is not running'' [Str (podName p)]\<rparr>
      else \<lparr>level = DebugLevel, code = ''DClu2006'', cause = None,
            message = Formatted ''Found running router pod with name %s'' [Str (podName p)]\<rparr>)"

definition noRunningPods :: finding where
  "noRunningPods = \<lparr>level = ErrorLevel, code = ''DClu2007'', cause = None,
                     message = Formatted clRtNoPods [Str routerName]\<rparr>"

text \<open>The attributes \<open>CanRun\<close> asks about, and the cases in which it refuses.\<close>

definition routerAccess :: authorizationAttributes where
  "routerAccess = \<lparr>Namespace = NamespaceDefault, Verb = ''get'', Resource = ''dc'',
                    ResourceName = routerName\<rparr>"

definition refused :: "clusterRouter \<Rightarrow> bool" where
  "refused d =
     (KubeClient d = None \<or> OsClient d = None \<or>
      (case OsClient d of
         None \<Rightarrow> False
       | Some c \<Rightarrow> snd (adminCan c routerAccess) \<noteq> None \<or> \<not> fst (adminCan c routerAccess)))"

text \<open>The findings of the node config check, by name.\<close>

definition lookingForFile :: "nodeConfigCheck \<Rightarrow> finding" where
  "lookingForFile d = \<lparr>level = DebugLevel, code = ''DH1001'', cause = None,
      message = Formatted (''Looking for node config file at '%s'' @ [CHR 0x27])
                  [Str (NodeConfigFile d)]\<rparr>"

definition couldNotRead :: "nodeConfigCheck \<Rightarrow> error \<Rightarrow> finding" where
  "couldNotRead d err = \<lparr>level = ErrorLevel, code = ''DH1002'', cause = Some err,
      message = Formatted ''Could not read node config file '%s':\<newline>(%T) %[2]v''
                  [Str (NodeConfigFile d), Err err]\<rparr>"

definition foundFile :: "nodeConfigCheck \<Rightarrow> finding" where
  "foundFile d = \<lparr>level = InfoLevel, code = ''DH1003'', cause = None,
      message = Formatted ''Found a node config file: %[1]s'' [Str (NodeConfigFile d)]\<rparr>"

definition validationFailed :: "nodeConfigCheck \<Rightarrow> error \<Rightarrow> finding" where
  "validationFailed d err = \<lparr>level = ErrorLevel, code = ''DH1004'', cause = Some err,
      message = Formatted ''Validation of node config file '%s' failed:\<newline>(%T) %[2]v''
                  [Str (NodeConfigFile d), Err err]\<rparr>"

section \<open>Example clusters\<close>

text \<open>
  A stand-in for \<open>time.Parse\<close> that knows one stamp, 2015-06-01 10:00:00 UTC, and
  rejects every other string; three log lines; pods; and clients that answer every
  request with the given values.
\<close>

definition exampleParse :: "string \<Rightarrow> string \<Rightarrow> error + time" where
  "exampleParse layout v =
     (if layout = ''2006-01-02T15:04:05.000000000Z'' \<and> v = ''2015-06-01T10:00:00.000000000Z''
      then Inr 1433152800000000000
      else Inl (ErrorString ''parsing time''))"

definition failureText :: string where
  "failureText =
     ''2015-06-01T10:00:00.000000000Z E0601 reflector.go:136] Failed to list *api.Route: dial tcp: timeout''"

definition unstampedText :: string where
  "unstampedText = ''E0601 reflector.go:136] Failed to list *api.Route: dial tcp: timeout''"

definition plainText :: string where
  "plainText = ''I0601 10:00:00 router.go:1] Router is running''"

text \<open>
  A stream without a recent failure: an unrelated line, the failure read 120 seconds
  after its stamp, and a failure line without a stamp. The second stream goes on with
  the failure read 10 seconds after its stamp and one more line.
\<close>

definition staleLog :: "logLine list" where
  "staleLog = [(plainText, 1433152805000000000), (failureText, 1433152920000000000),
               (unstampedText, 1433152808000000000)]"

definition activeLog :: "logLine list" where
  "activeLog = staleLog @ [(failureText, 1433152810000000000), (plainText, 1433152811000000000)]"

definition routerPod :: pod where
  "routerPod = \<lparr>podNamespace = ''default'', podName = ''router-1-abcde'', phase = PodRunning,
                containers = [''router'']\<rparr>"

definition pendingPod :: pod where
  "pendingPod = \<lparr>podNamespace = ''default'', podName = ''router-1-deploy'', phase = PodPending,
                 containers = [''deployment'']\<rparr>"

definition emptyPod :: pod where
  "emptyPod = \<lparr>podNamespace = ''default'', podName = ''router-1-empty'', phase = PodRunning,
               containers = []\<rparr>"

definition exampleKube :: "pod list \<Rightarrow> (error + logStream) \<Rightarrow> kubeClient" where
  "exampleKube items stream =
     \<lparr>listPods = (\<lambda>ns sel. Inr items), streamLog = (\<lambda>ns name c. stream)\<rparr>"

definition exampleOs :: "(error + deploymentConfig) \<Rightarrow> (bool \<times> error option) \<Rightarrow> osClient" where
  "exampleOs dc auth = \<lparr>getDeploymentConfig = (\<lambda>ns name. dc), adminCan = (\<lambda>a. auth)\<rparr>"

definition exampleDC :: deploymentConfig where
  "exampleDC = \<lparr>selector = [(''router'', ''router'')]\<rparr>"

definition exampleRouter :: "pod list \<Rightarrow> (error + logStream) \<Rightarrow> clusterRouter" where
  "exampleRouter items stream =
     \<lparr>KubeClient = Some (exampleKube items stream),
      OsClient = Some (exampleOs (Inr exampleDC) (True, None))\<rparr>"

definition deniedRouter :: clusterRouter where
  "deniedRouter =
     \<lparr>KubeClient = Some (exampleKube [] (Inl (ErrorString ''no logs''))),
      OsClient = Some (exampleOs (Inr exampleDC) (False, None))\<rparr>"

definition forbiddenRouter :: clusterRouter where
  "forbiddenRouter =
     \<lparr>KubeClient = Some (exampleKube [routerPod] (Inr ([], EndOfStream))),
      OsClient = Some (exampleOs (Inl (StatusError Forbidden ''User cannot get deploymentconfigs''))
                         (True, None))\<rparr>"

definition exampleRead :: "string \<Rightarrow> error + nat" where
  "exampleRead file =
     (if file = ''/etc/node-config.yaml'' then Inr 1 else Inl (ErrorString ''no such file''))"

definition exampleValidate :: "nat \<Rightarrow> error list" where
  "exampleValidate cfg = [ErrorString ''dnsIP: invalid value'', ErrorString ''podManifestConfig.path: required'']"

section \<open>Facts about the model\<close>

lemma recent_iff: "secondsBelow30 (Since now t) = (now - t < 30000000000)"
  by (simp add: secondsBelow30_def Since_def minDuration_def maxDuration_def Let_def)

lemma delivered_simps [simp]:
  "delivered p [] = []"
  "delivered p (l # ls) = Delivered (podName p) (fst l) # delivered p ls"
  "delivered p (xs @ ys) = delivered p xs @ delivered p ys"
  by (simp_all add: delivered_def)

lemma scanLines_skip_one:
  "\<not> qualifies parse (line, now) \<Longrightarrow>
   scanLines parse p ((line, now) # rest) (r, w) =
   scanLines parse p rest (r, w @ [Delivered (podName p) line])"
  by (auto simp: qualifies_def split: option.splits sum.splits)

lemma scanLines_skip:
  "list_all (\<lambda>l. \<not> qualifies parse l) pre \<Longrightarrow>
   scanLines parse p (pre @ rest) (r, w) = scanLines parse p rest (r, w @ delivered p pre)"
proof (induction pre arbitrary: w)
  case Nil
  then show ?case by simp
next
  case (Cons l pre)
  obtain line now where l: "l = (line, now)" by (cases l)
  from Cons.prems have nq: "\<not> qualifies parse (line, now)"
    and others: "list_all (\<lambda>l. \<not> qualifies parse l) pre"
    by (simp_all add: l)
  show ?case
    using scanLines_skip_one [OF nq] Cons.IH [OF others] by (simp add: l)
qed

lemma scanLines_hit:
  "FindStringSubmatch line = Some (stamp, reason) \<Longrightarrow>
   parse referenceTimestampLayout stamp = Inr t \<Longrightarrow>
   secondsBelow30 (Since now t) \<Longrightarrow>
   scanLines parse p ((line, now) # post) (r, w) =
     (Errort ''DClu2009'' None clRtPodConn
        [(''reason'', Str reason), (''timestamp'', Str stamp), (''podName'', Str (podName p))] r,
      w @ [Delivered (podName p) line])"
  by simp

lemma scanLines_ops:
  "snd (scanLines parse p ls (r, w)) = w @ delivered p (scanned parse ls)"
proof (induction ls arbitrary: w)
  case Nil
  show ?case by simp
next
  case (Cons l ls)
  obtain line now where l: "l = (line, now)" by (cases l)
  show ?case
  proof (cases "qualifies parse (line, now)")
    case True
    then show ?thesis
      by (auto simp: l qualifies_def split: option.splits sum.splits)
  next
    case False
    then show ?thesis
      using scanLines_skip_one [OF False, of p ls r w] Cons.IH [of "w @ [Delivered (podName p) line]"]
      by (simp add: l)
  qed
qed

lemma checkRouterLogs_opened:
  "KubeClient d = Some k \<Longrightarrow> containers p = c # cs \<Longrightarrow>
   streamLog k (podNamespace p) (podName p) c = Inr (ls, e) \<Longrightarrow>
   checkRouterLogs parse d p (r, w) =
     Inr (fst (scanLines parse p ls (r, w @ [Opened (podName p)])),
          snd (scanLines parse p ls (r, w @ [Opened (podName p)])) @ [Closed (podName p)])"
  by (simp add: checkRouterLogs_def getPodLogScanner_def Close_def split: prod.splits)

lemma released_simps:
  "released [] = 0"
  "released (Opened n # w) = released w"
  "released (Delivered n x # w) = released w"
  "released (Closed n # w) = Suc (released w)"
  "released (w @ v) = released w + released v"
  by (simp_all add: released_def)

lemma released_delivered: "released (delivered p ls) = 0"
  by (induction ls) (simp_all add: released_simps)

lemma acquired_simps:
  "acquired [] = 0"
  "acquired (Opened n # w) = Suc (acquired w)"
  "acquired (Delivered n x # w) = acquired w"
  "acquired (Closed n # w) = acquired w"
  "acquired (w @ v) = acquired w + acquired v"
  by (simp_all add: acquired_def)

lemma acquired_delivered: "acquired (delivered p ls) = 0"
  by (induction ls) (simp_all add: acquired_simps)

lemma runningPods_eq:
  "runningPods items running r =
     (running @ filter isRunning items, r\<lparr>logs := logs r @ map podFinding items\<rparr>)"
  by (induction items arbitrary: running r)
     (simp_all add: isRunning_def podFinding_def Debugf_def emit_def)

lemma podFinding_level: "level (podFinding p) = DebugLevel"
  by (simp add: podFinding_def)

lemma no_errors_among_pod_findings:
  "filter (\<lambda>f. level f = ErrorLevel) (map podFinding items) = []"
  by (induction items) (simp_all add: podFinding_level)

lemma getRouterPods_listed:
  assumes "KubeClient d = Some k" and "listPods k NamespaceDefault (selector dc) = Inr items"
  shows "getRouterPods d dc r =
     (if filter isRunning items = []
      then Inr (None, r\<lparr>logs := logs r @ map podFinding items @ [noRunningPods]\<rparr>)
      else Inr (Some (filter isRunning items), r\<lparr>logs := logs r @ map podFinding items\<rparr>))"
  using assms
  by (simp add: getRouterPods_def runningPods_eq Errorf_def emit_def noRunningPods_def)

lemma reportValidation_eq:
  "reportValidation (NodeConfigFile d) errs r =
     r\<lparr>logs := logs r @ map (validationFailed d) errs\<rparr>"
  by (induction errs arbitrary: r) (simp_all add: Errorf_def emit_def validationFailed_def)

text \<open>
  What \<open>Check\<close> does with a failed lookup of the router: a status error of the API, whatever
  its reason, gives the warning DClu2001 that there is no such DeploymentConfig; an
  error of any other type gives the error DClu2002. Nothing else happens either way.
\<close>

lemma lookup_failure_findings:
  assumes "OsClient d = Some c" and "getDeploymentConfig c NamespaceDefault routerName = Inl err"
  shows "ClusterRouter_Check parse d =
     Inr (\<lparr>origin = ClusterRouterName,
           logs = [if isStatusError err
                   then \<lparr>level = WarnLevel, code = ''DClu2001'', cause = Some err,
                         message = Formatted clGetRtNone [Str routerName]\<rparr>
                   else \<lparr>level = ErrorLevel, code = ''DClu2002'', cause = Some err,
                         message = Formatted clGetRtFailed [Str routerName, Err err]\<rparr>]\<rparr>, [])"
  using assms
  by (simp add: ClusterRouter_Check_def getRouterDC_def NewDiagnosticResult_def
      Warnf_def Errorf_def emit_def)

text \<open>The evaluation of the examples.\<close>

lemma failureText_match:
  "FindStringSubmatch failureText = Some (''2015-06-01T10:00:00.000000000Z'', ''dial tcp: timeout'')"
  by (simp add: failureText_def isSpace_def phrase_def stripPrefix_def runeLen_def)

lemma unstampedText_match:
  "FindStringSubmatch unstampedText = Some (''E0601'', ''dial tcp: timeout'')"
  by (simp add: unstampedText_def isSpace_def phrase_def stripPrefix_def runeLen_def)

lemma plainText_match: "FindStringSubmatch plainText = None"
  by (simp add: plainText_def isSpace_def phrase_def stripPrefix_def runeLen_def)

lemma example_stamp:
  "exampleParse referenceTimestampLayout ''2015-06-01T10:00:00.000000000Z'' = Inr 1433152800000000000"
  by (simp add: exampleParse_def referenceTimestampLayout_def)

lemma example_not_stamp:
  "exampleParse referenceTimestampLayout ''E0601'' = Inl (ErrorString ''parsing time'')"
  by (simp add: exampleParse_def)

lemmas example_lines =
  failureText_match unstampedText_match plainText_match example_stamp example_not_stamp recent_iff

lemmas example_cluster =
  exampleRouter_def exampleKube_def exampleOs_def routerPod_def pendingPod_def

section \<open>The properties\<close>

text \<open>
  Claim C1. When the scan of a pod's log reaches a line that matches the failure pattern,
  whose captured stamp parses under the reference layout and lies less than 30 seconds
  before the clock, \<open>checkRouterLogs\<close> appends exactly one finding to the sink: an
  error-level finding DClu2009 with the captured reason, the captured stamp and the pod
  name. The lines before it and the line itself are read, the lines after it are not,
  and the stream is closed.
\<close>

theorem recent_failure_reported:
  assumes "KubeClient d = Some k" and "containers p = c # cs"
    and "streamLog k (podNamespace p) (podName p) c = Inr (pre @ (line, now) # post, e)"
    and "list_all (\<lambda>l. \<not> qualifies parse l) pre"
    and "FindStringSubmatch line = Some (stamp, reason)"
    and "parse referenceTimestampLayout stamp = Inr t"
    and "now - t < 30000000000"
  shows "checkRouterLogs parse d p (r, w) =
     Inr (r\<lparr>logs := logs r @
            [\<lparr>level = ErrorLevel, code = ''DClu2009'', cause = None,
              message = Templated clRtPodConn
                [(''reason'', Str reason), (''timestamp'', Str stamp), (''podName'', Str (podName p))]\<rparr>]\<rparr>,
          w @ [Opened (podName p)] @ delivered p (pre @ [(line, now)]) @ [Closed (podName p)])"
proof -
  have recent: "secondsBelow30 (Since now t)"
    using assms(7) by (simp add: recent_iff)
  have "scanLines parse p (pre @ (line, now) # post) (r, w @ [Opened (podName p)]) =
        scanLines parse p ((line, now) # post) (r, (w @ [Opened (podName p)]) @ delivered p pre)"
    using assms(4) by (rule scanLines_skip)
  also have "\<dots> = (Errort ''DClu2009'' None clRtPodConn
        [(''reason'', Str reason), (''timestamp'', Str stamp), (''podName'', Str (podName p))] r,
      ((w @ [Opened (podName p)]) @ delivered p pre) @ [Delivered (podName p) line])"
    using assms(5,6) recent by (rule scanLines_hit)
  finally show ?thesis
    using checkRouterLogs_opened [OF assms(1-3), of parse r w]
    by (simp add: Errort_def emit_def)
qed

theorem recent_failure_reported_witness:
  "checkRouterLogs exampleParse (exampleRouter [routerPod] (Inr (activeLog, EndOfStream)))
     routerPod (NewDiagnosticResult ClusterRouterName, []) =
   Inr (\<lparr>origin = ClusterRouterName,
         logs = [\<lparr>level = ErrorLevel, code = ''DClu2009'', cause = None,
                  message = Templated clRtPodConn
                    [(''reason'', Str ''dial tcp: timeout''),
                     (''timestamp'', Str ''2015-06-01T10:00:00.000000000Z''),
                     (''podName'', Str ''router-1-abcde'')]\<rparr>]\<rparr>,
        [Opened ''router-1-abcde'', Delivered ''router-1-abcde'' plainText,
         Delivered ''router-1-abcde'' failureText, Delivered ''router-1-abcde'' unstampedText,
         Delivered ''router-1-abcde'' failureText, Closed ''router-1-abcde''])"
  using recent_failure_reported [where d = "exampleRouter [routerPod] (Inr (activeLog, EndOfStream))"
      and k = "exampleKube [routerPod] (Inr (activeLog, EndOfStream))"
      and p = routerPod and c = "''router''" and cs = "[]" and pre = staleLog
      and line = failureText and now = 1433152810000000000
      and post = "[(plainText, 1433152811000000000)]" and e = EndOfStream
      and parse = exampleParse and stamp = "''2015-06-01T10:00:00.000000000Z''"
      and reason = "''dial tcp: timeout''" and t = 1433152800000000000
      and r = "NewDiagnosticResult ClusterRouterName" and w = "[]"]
  by (simp add: example_cluster example_lines activeLog_def staleLog_def qualifies_def
      NewDiagnosticResult_def)

text \<open>
  Claim C4. A line that matches the failure pattern but whose captured stamp does not
  parse, or lies 30 seconds or more before the clock, adds no finding, and the scan goes
  on with the next line. When no line of the stream qualifies, \<open>checkRouterLogs\<close> leaves
  the sink as it was, after reading every line and closing the stream.
\<close>

theorem stale_matches_suppressed:
  "(FindStringSubmatch line = Some (stamp, reason) \<and>
      (case parse referenceTimestampLayout stamp of
         Inl err \<Rightarrow> True
       | Inr t \<Rightarrow> 30000000000 \<le> now - t) \<longrightarrow>
      scanLines parse p ((line, now) # rest) (r, w) =
        scanLines parse p rest (r, w @ [Delivered (podName p) line])) \<and>
   (KubeClient d = Some k \<and> containers p = c # cs \<and>
      streamLog k (podNamespace p) (podName p) c = Inr (ls, e) \<and>
      list_all (\<lambda>l. \<not> qualifies parse l) ls \<longrightarrow>
      checkRouterLogs parse d p (r, w) =
        Inr (r, w @ [Opened (podName p)] @ delivered p ls @ [Closed (podName p)]))"
proof (intro conjI impI)
  assume "FindStringSubmatch line = Some (stamp, reason) \<and>
      (case parse referenceTimestampLayout stamp of
         Inl err \<Rightarrow> True
       | Inr t \<Rightarrow> 30000000000 \<le> now - t)"
  then have "\<not> qualifies parse (line, now)"
    by (auto simp: qualifies_def recent_iff split: sum.splits)
  then show "scanLines parse p ((line, now) # rest) (r, w) =
        scanLines parse p rest (r, w @ [Delivered (podName p) line])"
    by (rule scanLines_skip_one)
next
  assume a: "KubeClient d = Some k \<and> containers p = c # cs \<and>
      streamLog k (podNamespace p) (podName p) c = Inr (ls, e) \<and>
      list_all (\<lambda>l. \<not> qualifies parse l) ls"
  then have op: "checkRouterLogs parse d p (r, w) =
     Inr (fst (scanLines parse p ls (r, w @ [Opened (podName p)])),
          snd (scanLines parse p ls (r, w @ [Opened (podName p)])) @ [Closed (podName p)])"
    using checkRouterLogs_opened by blast
  have "scanLines parse p (ls @ []) (r, w @ [Opened (podName p)]) =
        scanLines parse p [] (r, (w @ [Opened (podName p)]) @ delivered p ls)"
    using a by (intro scanLines_skip) simp
  then show "checkRouterLogs parse d p (r, w) =
        Inr (r, w @ [Opened (podName p)] @ delivered p ls @ [Closed (podName p)])"
    by (simp add: op)
qed

theorem stale_matches_suppressed_witness:
  "scanLines exampleParse routerPod
     [(failureText, 1433152920000000000), (plainText, 1433152921000000000)]
     (NewDiagnosticResult ClusterRouterName, []) =
   (NewDiagnosticResult ClusterRouterName,
    [Delivered ''router-1-abcde'' failureText, Delivered ''router-1-abcde'' plainText]) \<and>
   checkRouterLogs exampleParse (exampleRouter [routerPod] (Inr (staleLog, EndOfStream)))
     routerPod (NewDiagnosticResult ClusterRouterName, []) =
   Inr (NewDiagnosticResult ClusterRouterName,
        [Opened ''router-1-abcde'', Delivered ''router-1-abcde'' plainText,
         Delivered ''router-1-abcde'' failureText, Delivered ''router-1-abcde'' unstampedText,
         Closed ''router-1-abcde''])"
  using stale_matches_suppressed [where line = failureText
      and stamp = "''2015-06-01T10:00:00.000000000Z''" and reason = "''dial tcp: timeout''"
      and parse = exampleParse and now = 1433152920000000000 and p = routerPod
      and rest = "[(plainText, 1433152921000000000)]"
      and r = "NewDiagnosticResult ClusterRouterName" and w = "[]"
      and d = "exampleRouter [routerPod] (Inr (staleLog, EndOfStream))"
      and k = "exampleKube [routerPod] (Inr (staleLog, EndOfStream))"
      and c = "''router''" and cs = "[]" and ls = staleLog and e = EndOfStream]
  by (simp add: example_cluster example_lines staleLog_def qualifies_def)

text \<open>
  Claim C5. Once the router is found and its pods are listed, every pod gets one
  debug-level finding, DClu2005 when it is not running and DClu2006 when it is. Only
  the running pods, in their order, go on to the log scan. When none is running, the
  check ends with the error DClu2007: this is its only error-level finding, and no
  stream is opened.
\<close>

theorem running_pods_filtered:
  assumes "OsClient d = Some c" and "getDeploymentConfig c NamespaceDefault routerName = Inr dc"
    and "KubeClient d = Some k" and "listPods k NamespaceDefault (selector dc) = Inr items"
  shows "list_all (\<lambda>p. level (podFinding p) = DebugLevel) items \<and>
     (filter isRunning items = [] \<longrightarrow>
        ClusterRouter_Check parse d =
          Inr (\<lparr>origin = ClusterRouterName,
                logs = foundRouterDC # map podFinding items @ [noRunningPods]\<rparr>, []) \<and>
        length (filter (\<lambda>f. level f = ErrorLevel)
                  (foundRouterDC # map podFinding items @ [noRunningPods])) = 1) \<and>
     (filter isRunning items \<noteq> [] \<longrightarrow>
        ClusterRouter_Check parse d =
          checkPods parse d (filter isRunning items)
            (\<lparr>origin = ClusterRouterName, logs = foundRouterDC # map podFinding items\<rparr>, []))"
proof -
  have dc: "getRouterDC d (NewDiagnosticResult ClusterRouterName) =
      Inr (Some dc, \<lparr>origin = ClusterRouterName, logs = [foundRouterDC]\<rparr>)"
    using assms(1,2)
    by (simp add: getRouterDC_def NewDiagnosticResult_def Debugf_def emit_def foundRouterDC_def)
  have lv: "list_all (\<lambda>p. level (podFinding p) = DebugLevel) items"
    by (simp add: podFinding_level list_all_iff)
  have cnt: "length (filter (\<lambda>f. level f = ErrorLevel)
                  (foundRouterDC # map podFinding items @ [noRunningPods])) = 1"
    by (simp add: no_errors_among_pod_findings foundRouterDC_def noRunningPods_def)
  show ?thesis
    using lv cnt
    by (simp add: ClusterRouter_Check_def dc getRouterPods_listed [OF assms(3,4)])
qed

theorem running_pods_filtered_witness:
  "ClusterRouter_Check exampleParse (exampleRouter [pendingPod] (Inr (activeLog, EndOfStream))) =
     Inr (\<lparr>origin = ClusterRouterName,
           logs = [foundRouterDC, podFinding pendingPod, noRunningPods]\<rparr>, []) \<and>
   ClusterRouter_Check exampleParse
       (exampleRouter [pendingPod, routerPod] (Inr (staleLog, EndOfStream))) =
     Inr (\<lparr>origin = ClusterRouterName,
           logs = [foundRouterDC, podFinding pendingPod, podFinding routerPod]\<rparr>,
          [Opened ''router-1-abcde'', Delivered ''router-1-abcde'' plainText,
           Delivered ''router-1-abcde'' failureText, Delivered ''router-1-abcde'' unstampedText,
           Closed ''router-1-abcde''])"
  using running_pods_filtered [where d = "exampleRouter [pendingPod] (Inr (activeLog, EndOfStream))"
      and c = "exampleOs (Inr exampleDC) (True, None)" and dc = exampleDC
      and k = "exampleKube [pendingPod] (Inr (activeLog, EndOfStream))"
      and items = "[pendingPod]" and parse = exampleParse]
    running_pods_filtered [where d = "exampleRouter [pendingPod, routerPod] (Inr (staleLog, EndOfStream))"
      and c = "exampleOs (Inr exampleDC) (True, None)" and dc = exampleDC
      and k = "exampleKube [pendingPod, routerPod] (Inr (staleLog, EndOfStream))"
      and items = "[pendingPod, routerPod]" and parse = exampleParse]
  by (simp add: example_cluster example_lines isRunning_def staleLog_def
      checkRouterLogs_def getPodLogScanner_def Close_def)

text \<open>
  Claim C6. Whatever way \<open>checkRouterLogs\<close> leaves the scan of a pod, it closes the stream
  it opened exactly once, and closes nothing when the stream could not be opened. When
  opening fails the check performs no stream operation. When it succeeds the operations
  are: the opening, the lines up to and including the first one that qualifies (all of
  them when none does, whether the stream ends or a read fails), and one closing.
\<close>

theorem stream_released_once:
  assumes "KubeClient d = Some k" and "containers p = c # cs"
  shows "case streamLog k (podNamespace p) (podName p) c of
           Inl err \<Rightarrow> map_sum id snd (checkRouterLogs parse d p (r, w)) = Inr w
         | Inr (ls, e) \<Rightarrow>
             map_sum id snd (checkRouterLogs parse d p (r, w)) =
               Inr (w @ [Opened (podName p)] @ delivered p (scanned parse ls) @ [Closed (podName p)]) \<and>
             acquired (w @ [Opened (podName p)] @ delivered p (scanned parse ls) @ [Closed (podName p)])
               = acquired w + 1 \<and>
             released (w @ [Opened (podName p)] @ delivered p (scanned parse ls) @ [Closed (podName p)])
               = released w + 1"
proof (cases "streamLog k (podNamespace p) (podName p) c")
  case (Inl err)
  then show ?thesis
    using assms by (simp add: checkRouterLogs_def getPodLogScanner_def)
next
  case (Inr s)
  obtain ls e where s: "s = (ls, e)" by (cases s)
  have "streamLog k (podNamespace p) (podName p) c = Inr (ls, e)"
    using Inr s by simp
  from checkRouterLogs_opened [OF assms this, of parse r w]
  show ?thesis
    by (simp add: Inr s scanLines_ops released_simps acquired_simps
        released_delivered acquired_delivered)
qed

theorem stream_released_once_witness:
  "map_sum id snd
     (checkRouterLogs exampleParse
        (exampleRouter [routerPod] (Inl (ErrorString ''connection refused'')))
        routerPod (NewDiagnosticResult ClusterRouterName, [])) = Inr [] \<and>
   map_sum id snd
     (checkRouterLogs exampleParse
        (exampleRouter [routerPod] (Inr (activeLog, ReadError (ErrorString ''unexpected EOF''))))
        routerPod (NewDiagnosticResult ClusterRouterName, [])) =
     Inr [Opened ''router-1-abcde'', Delivered ''router-1-abcde'' plainText,
          Delivered ''router-1-abcde'' failureText, Delivered ''router-1-abcde'' unstampedText,
          Delivered ''router-1-abcde'' failureText, Closed ''router-1-abcde''] \<and>
   released [Opened ''router-1-abcde'', Delivered ''router-1-abcde'' plainText,
          Delivered ''router-1-abcde'' failureText, Delivered ''router-1-abcde'' unstampedText,
          Delivered ''router-1-abcde'' failureText, Closed ''router-1-abcde''] = 1"
  using stream_released_once [where d = "exampleRouter [routerPod] (Inl (ErrorString ''connection refused''))"
      and k = "exampleKube [routerPod] (Inl (ErrorString ''connection refused''))"
      and p = routerPod and c = "''router''" and cs = "[]" and parse = exampleParse
      and r = "NewDiagnosticResult ClusterRouterName" and w = "[]"]
    stream_released_once [where d = "exampleRouter [routerPod] (Inr (activeLog, ReadError (ErrorString ''unexpected EOF'')))"
      and k = "exampleKube [routerPod] (Inr (activeLog, ReadError (ErrorString ''unexpected EOF'')))"
      and p = routerPod and c = "''router''" and cs = "[]" and parse = exampleParse
      and r = "NewDiagnosticResult ClusterRouterName" and w = "[]"]
  by (simp add: example_cluster example_lines activeLog_def staleLog_def qualifies_def
      released_simps)

text \<open>
  Claim C8. When the log stream of a pod cannot be opened, \<open>checkRouterLogs\<close> appends
  exactly one finding, the warning DClu2008 with the pod name and the error, and returns;
  the loop of \<open>Check\<close> goes on with the next pod.
\<close>

theorem open_failure_warns_and_continues:
  assumes "KubeClient d = Some k" and "containers p = c # cs"
    and "streamLog k (podNamespace p) (podName p) c = Inl err"
  shows "checkRouterLogs parse d p (r, w) =
      Inr (r\<lparr>logs := logs r @
             [\<lparr>level = WarnLevel, code = ''DClu2008'', cause = Some err,
               message = Templated clRtPodLog
                 [(''error'', Sprintf ''(%T) %[1]v'' [Err err]), (''podName'', Str (podName p))]\<rparr>]\<rparr>, w) \<and>
    checkPods parse d (p # items) (r, w) =
      checkPods parse d items
        (r\<lparr>logs := logs r @
             [\<lparr>level = WarnLevel, code = ''DClu2008'', cause = Some err,
               message = Templated clRtPodLog
                 [(''error'', Sprintf ''(%T) %[1]v'' [Err err]), (''podName'', Str (podName p))]\<rparr>]\<rparr>, w)"
  using assms
  by (simp add: checkRouterLogs_def getPodLogScanner_def Warnt_def emit_def)

theorem open_failure_warns_and_continues_witness:
  "checkPods exampleParse (exampleRouter [routerPod] (Inl (ErrorString ''connection refused'')))
     [routerPod, routerPod] (NewDiagnosticResult ClusterRouterName, []) =
   Inr (\<lparr>origin = ClusterRouterName,
         logs = [\<lparr>level = WarnLevel, code = ''DClu2008'',
                  cause = Some (ErrorString ''connection refused''),
                  message = Templated clRtPodLog
                    [(''error'', Sprintf ''(%T) %[1]v'' [Err (ErrorString ''connection refused'')]),
                     (''podName'', Str ''router-1-abcde'')]\<rparr>,
                 \<lparr>level = WarnLevel, code = ''DClu2008'',
                  cause = Some (ErrorString ''connection refused''),
                  message = Templated clRtPodLog
                    [(''error'', Sprintf ''(%T) %[1]v'' [Err (ErrorString ''connection refused'')]),
                     (''podName'', Str ''router-1-abcde'')]\<rparr>]\<rparr>, [])"
  using open_failure_warns_and_continues [where d = "exampleRouter [routerPod] (Inl (ErrorString ''connection refused''))"
      and k = "exampleKube [routerPod] (Inl (ErrorString ''connection refused''))"
      and p = routerPod and c = "''router''" and cs = "[]"
      and err = "ErrorString ''connection refused''" and parse = exampleParse
      and r = "NewDiagnosticResult ClusterRouterName" and w = "[]" and items = "[routerPod]"]
  by (simp add: example_cluster NewDiagnosticResult_def checkRouterLogs_def getPodLogScanner_def
      Warnt_def emit_def)

text \<open>
  Claim C9. \<open>CanRun\<close> of the cluster router check returns false, with an error that is not
  nil, exactly when a client handle is nil or the authorization query fails or denies;
  \<open>CanRun\<close> of the node config check does so exactly when the path of the config file is
  empty. In every other case they return true and a nil error.
\<close>

theorem CanRun_gate:
  "fst (ClusterRouter_CanRun d) = (\<not> refused d) \<and>
   (snd (ClusterRouter_CanRun d) = None) = (\<not> refused d) \<and>
   fst (NodeConfigCheck_CanRun n) = (NodeConfigFile n \<noteq> []) \<and>
   (snd (NodeConfigCheck_CanRun n) = None) = (NodeConfigFile n \<noteq> [])"
  by (auto simp: ClusterRouter_CanRun_def refused_def routerAccess_def NodeConfigCheck_CanRun_def
      split: option.splits prod.splits)

theorem CanRun_gate_witness:
  "ClusterRouter_CanRun (exampleRouter [] (Inl (ErrorString ''no logs''))) = (True, None) \<and>
   fst (ClusterRouter_CanRun deniedRouter) = False \<and>
   snd (ClusterRouter_CanRun deniedRouter) \<noteq> None \<and>
   fst (NodeConfigCheck_CanRun \<lparr>NodeConfigFile = []\<rparr>) = False \<and>
   snd (NodeConfigCheck_CanRun \<lparr>NodeConfigFile = []\<rparr>) \<noteq> None \<and>
   NodeConfigCheck_CanRun \<lparr>NodeConfigFile = ''/etc/node-config.yaml''\<rparr> = (True, None)"
  using CanRun_gate [of "exampleRouter [] (Inl (ErrorString ''no logs''))" "\<lparr>NodeConfigFile = []\<rparr>"]
    CanRun_gate [of deniedRouter "\<lparr>NodeConfigFile = ''/etc/node-config.yaml''\<rparr>"]
  by (simp add: refused_def exampleRouter_def deniedRouter_def exampleOs_def prod_eq_iff)

text \<open>
  Claim C10. The sink of the node config check starts with the debug-level finding
  DH1001. When the config file cannot be read, the error DH1002 follows and nothing
  else. Otherwise the info-level finding DH1003 follows, and then one error DH1004 for
  each error of the validator, in order; a config without validation errors gives no
  error-level finding.
\<close>

theorem node_config_findings:
  "NodeConfigCheck_Check readConfig validate d =
     \<lparr>origin = NodeConfigCheckName,
      logs = lookingForFile d #
        (case readConfig (NodeConfigFile d) of
           Inl err \<Rightarrow> [couldNotRead d err]
         | Inr nodeConfig \<Rightarrow> foundFile d # map (validationFailed d) (validate nodeConfig))\<rparr> \<and>
   map level (logs (NodeConfigCheck_Check readConfig validate d)) =
     DebugLevel #
        (case readConfig (NodeConfigFile d) of
           Inl err \<Rightarrow> [ErrorLevel]
         | Inr nodeConfig \<Rightarrow> InfoLevel # replicate (length (validate nodeConfig)) ErrorLevel)"
proof -
  have lv: "map (level \<circ> validationFailed d) errs = replicate (length errs) ErrorLevel" for errs
    by (induction errs) (simp_all add: validationFailed_def)
  have eq: "NodeConfigCheck_Check readConfig validate d =
     \<lparr>origin = NodeConfigCheckName,
      logs = lookingForFile d #
        (case readConfig (NodeConfigFile d) of
           Inl err \<Rightarrow> [couldNotRead d err]
         | Inr nodeConfig \<Rightarrow> foundFile d # map (validationFailed d) (validate nodeConfig))\<rparr>"
    by (simp add: NodeConfigCheck_Check_def reportValidation_eq NewDiagnosticResult_def
        Debugf_def Infof_def Errorf_def emit_def lookingForFile_def couldNotRead_def foundFile_def
        split: sum.splits)
  show ?thesis
    unfolding eq
    by (simp add: lv lookingForFile_def couldNotRead_def foundFile_def split: sum.splits)
qed

theorem node_config_findings_witness:
  "map level (logs (NodeConfigCheck_Check exampleRead exampleValidate
                      \<lparr>NodeConfigFile = ''/etc/node-config.yaml''\<rparr>)) =
     [DebugLevel, InfoLevel, ErrorLevel, ErrorLevel] \<and>
   map level (logs (NodeConfigCheck_Check exampleRead (\<lambda>cfg. [])
                      \<lparr>NodeConfigFile = ''/etc/node-config.yaml''\<rparr>)) =
     [DebugLevel, InfoLevel] \<and>
   map level (logs (NodeConfigCheck_Check exampleRead exampleValidate
                      \<lparr>NodeConfigFile = ''/nowhere''\<rparr>)) =
     [DebugLevel, ErrorLevel]"
  using node_config_findings [of exampleRead exampleValidate "\<lparr>NodeConfigFile = ''/etc/node-config.yaml''\<rparr>"]
    node_config_findings [of exampleRead "\<lambda>cfg. []" "\<lparr>NodeConfigFile = ''/etc/node-config.yaml''\<rparr>"]
    node_config_findings [of exampleRead exampleValidate "\<lparr>NodeConfigFile = ''/nowhere''\<rparr>"]
  by (simp add: exampleRead_def exampleValidate_def lookingForFile_def couldNotRead_def
      foundFile_def validationFailed_def)

text \<open>
  Claim C2. The claim holds for a lookup that fails with an error of another type than
  the API status error, and for a status error that says not found. It fails for a
  status error with another reason: the test of \<open>getRouterDC\<close> looks at the type of the
  error only, so a lookup refused for lack of permission gives the warning DClu2001,
  whose text says that there is no such DeploymentConfig, and no error-level finding.
\<close>

theorem forbidden_lookup_reported_as_absence:
  "ClusterRouter_Check exampleParse forbiddenRouter =
     Inr (\<lparr>origin = ClusterRouterName,
           logs = [\<lparr>level = WarnLevel, code = ''DClu2001'',
                    cause = Some (StatusError Forbidden ''User cannot get deploymentconfigs''),
                    message = Formatted clGetRtNone [Str routerName]\<rparr>]\<rparr>, []) \<and>
   map_sum id (\<lambda>s. atLevel ErrorLevel (fst s))
     (ClusterRouter_Check exampleParse forbiddenRouter) = Inr []"
  by (simp add: ClusterRouter_Check_def getRouterDC_def forbiddenRouter_def exampleOs_def
      isStatusError_def Warnf_def emit_def NewDiagnosticResult_def atLevel_def)

text \<open>
  Claim C3. \<open>Name\<close> returns the literal \<open>ClusterRouterName\<close>, while \<open>Check\<close> creates its sink
  under the value of the constant of that name, \<open>ClusterRouter\<close>: the two differ.
\<close>

theorem Name_differs_from_sink_namespace:
  "ClusterRouter_Name (exampleRouter [] (Inr ([], EndOfStream))) = ''ClusterRouterName'' \<and>
   map_sum id (\<lambda>s. origin (fst s))
     (ClusterRouter_Check exampleParse (exampleRouter [] (Inr ([], EndOfStream)))) =
     Inr ''ClusterRouter'' \<and>
   map_sum id (\<lambda>s. origin (fst s))
     (ClusterRouter_Check exampleParse (exampleRouter [] (Inr ([], EndOfStream)))) \<noteq>
     Inr (ClusterRouter_Name (exampleRouter [] (Inr ([], EndOfStream))))"
  by (simp add: ClusterRouter_Name_def ClusterRouter_Check_def getRouterDC_def getRouterPods_def
      exampleRouter_def exampleOs_def exampleKube_def NewDiagnosticResult_def ClusterRouterName_def
      Debugf_def Errorf_def emit_def)

text \<open>
  Claim C7. \<open>Check\<close> does not return a sink for every cluster: for a running pod without
  containers the index \<open>pod.Spec.Containers[0]\<close> of \<open>getPodLogScanner\<close> is out of range,
  and the panic ends \<open>Check\<close>.
\<close>

theorem Check_panics_on_pod_without_containers:
  "ClusterRouter_Check exampleParse (exampleRouter [emptyPod] (Inr ([], EndOfStream))) =
     Inl IndexOutOfRange"
  by (simp add: ClusterRouter_Check_def getRouterDC_def getRouterPods_def checkRouterLogs_def
      getPodLogScanner_def exampleRouter_def exampleOs_def exampleKube_def emptyPod_def
      NewDiagnosticResult_def Debugf_def emit_def)

end
